theory Spec2Isabelle
  imports Main "HOL-Library.Word"
begin

section \<open>The HTTP client request builder of @effect/platform\<close>

text \<open>
  A shallow embedding of \<^verbatim>\<open>packages/platform/src/internal/http/clientRequest.ts\<close>.
  Every transformation of the builder is a pure function from a request descriptor to a
  request descriptor. The data-last (curried) calling convention created by \<^verbatim>\<open>dual\<close> is
  the same function with its arguments in another order; the data-first form is modelled.
\<close>

subsection \<open>JavaScript strings\<close>

text \<open>
  A JavaScript string is a sequence of 16-bit code units. The difference to a byte string
  matters in two places: \<^verbatim>\<open>btoa\<close> rejects code units above 255, and \<^verbatim>\<open>TextEncoder\<close>
  counts UTF-8 bytes. \<open>js\<close> embeds an ASCII literal.
\<close>

type_synonym jschar = "16 word"
type_synonym jsstring = "jschar list"

definition js :: "string \<Rightarrow> jsstring" where
  "js s = map of_char s"

text \<open>
  \<^verbatim>\<open>String.prototype.toLowerCase\<close> on the ASCII letters. The platform also maps letters
  outside ASCII; header names are ASCII tokens, and no property below depends on more.
\<close>

definition toLowerCase :: "jsstring \<Rightarrow> jsstring" where
  "toLowerCase s = map (\<lambda>c. if 0x41 \<le> c \<and> c \<le> 0x5A then c + 0x20 else c) s"

definition startsWith :: "jsstring \<Rightarrow> jsstring \<Rightarrow> bool" where
  "startsWith s p = (take (length p) s = p)"

definition endsWith :: "jsstring \<Rightarrow> jsstring \<Rightarrow> bool" where
  "endsWith s p = (length p \<le> length s \<and> drop (length s - length p) s = p)"

text \<open>\<^verbatim>\<open>s.slice(n)\<close> for a non-negative \<open>n\<close>.\<close>

definition slice :: "jsstring \<Rightarrow> nat \<Rightarrow> jsstring" where
  "slice s n = drop n s"

text \<open>A JavaScript string is truthy when it is not empty.\<close>

definition truthy :: "jsstring \<Rightarrow> bool" where
  "truthy s = (s \<noteq> [])"

text \<open>
  \<^verbatim>\<open>Number.prototype.toString\<close> on a non-negative integer (below \<open>10^21\<close>, where the
  platform switches to exponent notation): its decimal digits.
\<close>

fun Number_toString :: "nat \<Rightarrow> jsstring" where
  "Number_toString n =
     (if n < 10 then [of_nat (48 + n)]
      else Number_toString (n div 10) @ [of_nat (48 + n mod 10)])"

declare Number_toString.simps [simp del]

subsection \<open>Platform primitives: base64 and UTF-8\<close>

datatype fault = InvalidCharacterError

definition b64char :: "nat \<Rightarrow> jschar" where
  "b64char n = js ''ABCDEFGHIJKLMNOPQRSTUVWXYZabcdefghijklmnopqrstuvwxyz0123456789+/'' ! n"

fun base64 :: "nat list \<Rightarrow> jsstring" where
  "base64 (a # b # c # rest) =
     [b64char (a div 4), b64char ((a mod 4) * 16 + b div 16),
      b64char ((b mod 16) * 4 + c div 64), b64char (c mod 64)] @ base64 rest"
| "base64 [a, b] =
     [b64char (a div 4), b64char ((a mod 4) * 16 + b div 16), b64char ((b mod 16) * 4), 0x3D]"
| "base64 [a] = [b64char (a div 4), b64char ((a mod 4) * 16), 0x3D, 0x3D]"
| "base64 [] = []"

text \<open>
  \<^verbatim>\<open>btoa\<close> reads each code unit as one byte and throws an \<^verbatim>\<open>InvalidCharacterError\<close>
  when a code unit is above 255.
\<close>

definition btoa :: "jsstring \<Rightarrow> fault + jsstring" where
  "btoa s = (if list_all (\<lambda>c. c \<le> 0xFF) s then Inr (base64 (map unat s))
             else Inl InvalidCharacterError)"

text \<open>
  \<^verbatim>\<open>new TextEncoder().encode\<close>: the UTF-8 bytes of a string. A surrogate pair is one code
  point of four bytes; a lone surrogate is replaced by U+FFFD.
\<close>

definition isHigh :: "jschar \<Rightarrow> bool" where
  "isHigh c = (0xD800 \<le> c \<and> c \<le> 0xDBFF)"

definition isLow :: "jschar \<Rightarrow> bool" where
  "isLow c = (0xDC00 \<le> c \<and> c \<le> 0xDFFF)"

definition utf8_of_codepoint :: "nat \<Rightarrow> nat list" where
  "utf8_of_codepoint n =
     (if n < 0x80 then [n]
      else if n < 0x800 then [0xC0 + n div 64, 0x80 + n mod 64]
      else if n < 0x10000 then [0xE0 + n div 4096, 0x80 + (n div 64) mod 64, 0x80 + n mod 64]
      else [0xF0 + n div 262144, 0x80 + (n div 4096) mod 64, 0x80 + (n div 64) mod 64,
            0x80 + n mod 64])"

fun TextEncoder_encode :: "jsstring \<Rightarrow> nat list" where
  "TextEncoder_encode [] = []"
| "TextEncoder_encode [c] =
     (if isHigh c \<or> isLow c then [0xEF, 0xBF, 0xBD] else utf8_of_codepoint (unat c))"
| "TextEncoder_encode (c # d # rest) =
     (if isHigh c \<and> isLow d
      then utf8_of_codepoint (0x10000 + (unat c - 0xD800) * 1024 + (unat d - 0xDC00))
           @ TextEncoder_encode rest
      else if isHigh c \<or> isLow c then [0xEF, 0xBF, 0xBD] @ TextEncoder_encode (d # rest)
      else utf8_of_codepoint (unat c) @ TextEncoder_encode (d # rest))"

subsection \<open>Headers\<close>

text \<open>
  Modelled from the spec: \<^verbatim>\<open>Http/Headers.ts\<close> is not among the sources. The spec describes
  headers as a "mapping from case-insensitive header name to string value, last-write-wins
  on collision": a map keyed by the lower-cased name.
\<close>

type_synonym Headers = "jsstring \<rightharpoonup> jsstring"

type_synonym Headers_Input = "(jsstring \<times> jsstring) list"

definition Headers_empty :: Headers where
  "Headers_empty = Map.empty"

definition Headers_get :: "Headers \<Rightarrow> jsstring \<Rightarrow> jsstring option" where
  "Headers_get self key = self (toLowerCase key)"

definition Headers_set :: "Headers \<Rightarrow> jsstring \<Rightarrow> jsstring \<Rightarrow> Headers" where
  "Headers_set self key val = self(toLowerCase key \<mapsto> val)"

definition Headers_remove :: "Headers \<Rightarrow> jsstring \<Rightarrow> Headers" where
  "Headers_remove self key = self(toLowerCase key := None)"

definition Headers_fromInput :: "Headers_Input \<Rightarrow> Headers" where
  "Headers_fromInput input = fold (\<lambda>(k, v) out. out(toLowerCase k \<mapsto> v)) input Map.empty"

definition Headers_setAll :: "Headers \<Rightarrow> Headers_Input \<Rightarrow> Headers" where
  "Headers_setAll self input = self ++ Headers_fromInput input"

subsection \<open>URL parameters\<close>

text \<open>
  Modelled from the spec: \<^verbatim>\<open>Http/UrlParams.ts\<close> is not among the sources. The spec describes
  query parameters as an "ordered sequence of (key, value) string pairs; duplicate keys
  permitted and preserved in insertion order". Appending adds at the end. The spec does
  not say more about \<^verbatim>\<open>set\<close> and \<^verbatim>\<open>setAll\<close>; here they drop the entries of the keys
  they set and add the new entries at the end. The properties below only use that these
  helpers return a parameter list.
\<close>

type_synonym UrlParams = "(jsstring \<times> jsstring) list"

type_synonym UrlParams_Input = "(jsstring \<times> jsstring) list"

definition UrlParams_empty :: UrlParams where
  "UrlParams_empty = []"

definition UrlParams_fromInput :: "UrlParams_Input \<Rightarrow> UrlParams" where
  "UrlParams_fromInput input = input"

definition UrlParams_append :: "UrlParams \<Rightarrow> jsstring \<Rightarrow> jsstring \<Rightarrow> UrlParams" where
  "UrlParams_append self key val = self @ [(key, val)]"

definition UrlParams_appendAll :: "UrlParams \<Rightarrow> UrlParams_Input \<Rightarrow> UrlParams" where
  "UrlParams_appendAll self input = self @ UrlParams_fromInput input"

definition UrlParams_set :: "UrlParams \<Rightarrow> jsstring \<Rightarrow> jsstring \<Rightarrow> UrlParams" where
  "UrlParams_set self key val = filter (\<lambda>(k, _). k \<noteq> key) self @ [(key, val)]"

definition UrlParams_setAll :: "UrlParams \<Rightarrow> UrlParams_Input \<Rightarrow> UrlParams" where
  "UrlParams_setAll self input =
     (let toSet = UrlParams_fromInput input; keys = map fst toSet
      in filter (\<lambda>(k, _). \<not> List.member keys k) self @ toSet)"

text \<open>
  The \<^verbatim>\<open>application/x-www-form-urlencoded\<close> serializer of the platform
  (\<^verbatim>\<open>URLSearchParams.toString\<close>): the UTF-8 bytes of each name and value, with letters,
  digits and \<^verbatim>\<open>*-._\<close> kept, the space written \<^verbatim>\<open>+\<close> and every other byte written
  \<^verbatim>\<open>%XX\<close>; pairs joined by \<^verbatim>\<open>&\<close>.
\<close>

definition hexdigit :: "nat \<Rightarrow> jschar" where
  "hexdigit n = js ''0123456789ABCDEF'' ! n"

definition urlencode_byte :: "nat \<Rightarrow> jsstring" where
  "urlencode_byte b =
     (if (0x30 \<le> b \<and> b \<le> 0x39) \<or> (0x41 \<le> b \<and> b \<le> 0x5A) \<or> (0x61 \<le> b \<and> b \<le> 0x7A)
         \<or> b = 0x2A \<or> b = 0x2D \<or> b = 0x2E \<or> b = 0x5F then [of_nat b]
      else if b = 0x20 then [0x2B]
      else [0x25, hexdigit (b div 16), hexdigit (b mod 16)])"

definition urlencode :: "jsstring \<Rightarrow> jsstring" where
  "urlencode s = concat (map urlencode_byte (TextEncoder_encode s))"

fun UrlParams_toString :: "UrlParams \<Rightarrow> jsstring" where
  "UrlParams_toString [] = []"
| "UrlParams_toString [(k, v)] = urlencode k @ [0x3D] @ urlencode v"
| "UrlParams_toString ((k, v) # rest) =
     urlencode k @ [0x3D] @ urlencode v @ [0x26] @ UrlParams_toString rest"

subsection \<open>The platform's URL class\<close>

text \<open>
  The part of the platform's \<^verbatim>\<open>URL\<close> class that \<^verbatim>\<open>setUrl\<close> uses. A URL record holds the
  serialisation of scheme, authority and path (\<open>base\<close>), the query and the fragment; the
  last two may be absent. The serialisation writes \<^verbatim>\<open>?\<close> before a present query and
  \<^verbatim>\<open>#\<close> before a present fragment. \<open>URL_new\<close> reads such a serialisation back: the
  fragment starts after the first \<^verbatim>\<open>#\<close>, the query after the first \<^verbatim>\<open>?\<close> before it.
  The normalisation that the platform's parser applies to scheme, host and path, and its
  \<^verbatim>\<open>TypeError\<close> on a string that is no absolute URL, are outside this model: \<^verbatim>\<open>setUrl\<close>
  only parses the serialisation of a URL object.
\<close>

record URL =
  base :: jsstring
  query :: "jsstring option"
  fragment :: "jsstring option"

definition URL_toString :: "URL \<Rightarrow> jsstring" where
  "URL_toString u =
     base u @ (case query u of None \<Rightarrow> [] | Some q \<Rightarrow> 0x3F # q)
            @ (case fragment u of None \<Rightarrow> [] | Some f \<Rightarrow> 0x23 # f)"

definition split_first :: "jschar \<Rightarrow> jsstring \<Rightarrow> jsstring \<times> jsstring option" where
  "split_first c s =
     (takeWhile (\<lambda>x. x \<noteq> c) s,
      case dropWhile (\<lambda>x. x \<noteq> c) s of [] \<Rightarrow> None | _ # r \<Rightarrow> Some r)"

definition URL_new :: "jsstring \<Rightarrow> URL" where
  "URL_new s =
     (let (s1, f) = split_first 0x23 s; (b, q) = split_first 0x3F s1
      in \<lparr>base = b, query = q, fragment = f\<rparr>)"

text \<open>The \<^verbatim>\<open>hash\<close> getter: empty for an absent or empty fragment, else \<^verbatim>\<open>#\<close> and the fragment.\<close>

definition URL_hash :: "URL \<Rightarrow> jsstring" where
  "URL_hash u = (case fragment u of None \<Rightarrow> [] | Some f \<Rightarrow> if f = [] then [] else 0x23 # f)"

text \<open>The assignments \<^verbatim>\<open>clone.search = ""\<close> and \<^verbatim>\<open>clone.hash = ""\<close>.\<close>

definition URL_clear_search :: "URL \<Rightarrow> URL" where
  "URL_clear_search u = u\<lparr>query := None\<rparr>"

definition URL_clear_hash :: "URL \<Rightarrow> URL" where
  "URL_clear_hash u = u\<lparr>fragment := None\<rparr>"

text \<open>
  The \<^verbatim>\<open>searchParams\<close> getter: the \<^verbatim>\<open>application/x-www-form-urlencoded\<close> parser on
  the query. Pieces are separated by \<^verbatim>\<open>&\<close>, empty pieces are skipped, name and value are
  separated by the first \<^verbatim>\<open>=\<close>, \<^verbatim>\<open>+\<close> is a space and \<^verbatim>\<open>%XX\<close> is the byte \<open>XX\<close>. The
  platform then decodes the bytes as UTF-8; here a byte stays one code unit, which is the
  same on ASCII.
\<close>

definition split_on :: "jschar \<Rightarrow> jsstring \<Rightarrow> jsstring list" where
  "split_on c s = foldr (\<lambda>x acc. if x = c then [] # acc else (x # hd acc) # tl acc) s [[]]"

definition hexval :: "jschar \<Rightarrow> nat option" where
  "hexval c =
     (if 0x30 \<le> c \<and> c \<le> 0x39 then Some (unat c - 0x30)
      else if 0x41 \<le> c \<and> c \<le> 0x46 then Some (unat c - 0x41 + 10)
      else if 0x61 \<le> c \<and> c \<le> 0x66 then Some (unat c - 0x61 + 10)
      else None)"

fun percent_decode :: "jsstring \<Rightarrow> jsstring" where
  "percent_decode (p # a # b # rest) =
     (if p = 0x25 then
        (case (hexval a, hexval b) of
           (Some x, Some y) \<Rightarrow> of_nat (16 * x + y) # percent_decode rest
         | _ \<Rightarrow> p # percent_decode (a # b # rest))
      else p # percent_decode (a # b # rest))"
| "percent_decode (x # xs) = x # percent_decode xs"
| "percent_decode [] = []"

definition urldecode :: "jsstring \<Rightarrow> jsstring" where
  "urldecode s = percent_decode (map (\<lambda>c. if c = 0x2B then 0x20 else c) s)"

definition parse_pair :: "jsstring \<Rightarrow> jsstring \<times> jsstring" where
  "parse_pair piece =
     (let (n, v) = split_first 0x3D piece
      in (urldecode n, urldecode (case v of None \<Rightarrow> [] | Some w \<Rightarrow> w)))"

definition parse_urlencoded :: "jsstring \<Rightarrow> (jsstring \<times> jsstring) list" where
  "parse_urlencoded s = map parse_pair (filter (\<lambda>p. p \<noteq> []) (split_on 0x26 s))"

definition URL_searchParams :: "URL \<Rightarrow> (jsstring \<times> jsstring) list" where
  "URL_searchParams u = parse_urlencoded (case query u of None \<Rightarrow> [] | Some q \<Rightarrow> q)"

subsection \<open>Request bodies\<close>

text \<open>
  Modelled from the spec: \<^verbatim>\<open>internal/http/body.ts\<close> is not among the sources. The spec gives
  the body as a "tagged variant - Empty | Raw bytes (with content-type, optional
  content-length) | Text (with content-type) | FormEncoded | Streamed (with content-type,
  optional content-length)". \<^verbatim>\<open>setBody\<close> reads the tag and the two metadata fields
  \<^verbatim>\<open>contentType\<close> and \<^verbatim>\<open>contentLength\<close>, which are \<^verbatim>\<open>undefined\<close> (\<open>None\<close>) where a
  variant does not carry them. The length of a text body is the number of its UTF-8 bytes
  (the spec's example: \<^verbatim>\<open>"hi"\<close> has content-length 2). A content length is a non-negative
  integer.
\<close>

datatype Body =
    Empty
  | Bytes "8 word list" jsstring "nat option"
  | Text jsstring jsstring
  | FormEncoded "(jsstring \<times> jsstring) list"
  | Streamed "8 word list list" jsstring "nat option"

fun contentType :: "Body \<Rightarrow> jsstring option" where
  "contentType Empty = None"
| "contentType (Bytes _ ct _) = Some ct"
| "contentType (Text _ ct) = Some ct"
| "contentType (FormEncoded _) = None"
| "contentType (Streamed _ ct _) = Some ct"

fun contentLength :: "Body \<Rightarrow> nat option" where
  "contentLength Empty = None"
| "contentLength (Bytes _ _ n) = n"
| "contentLength (Text t _) = Some (length (TextEncoder_encode t))"
| "contentLength (FormEncoded _) = None"
| "contentLength (Streamed _ _ n) = n"

definition internalBody_empty :: Body where
  "internalBody_empty = Empty"

definition internalBody_uint8Array :: "8 word list \<Rightarrow> jsstring \<Rightarrow> Body" where
  "internalBody_uint8Array b ct = Bytes b ct (Some (length b))"

definition internalBody_text :: "jsstring \<Rightarrow> jsstring \<Rightarrow> Body" where
  "internalBody_text t ct = Text t ct"

definition internalBody_formData :: "(jsstring \<times> jsstring) list \<Rightarrow> Body" where
  "internalBody_formData entries = FormEncoded entries"

definition internalBody_stream :: "8 word list list \<Rightarrow> jsstring \<Rightarrow> nat option \<Rightarrow> Body" where
  "internalBody_stream chunks ct n = Streamed chunks ct n"

text \<open>
  Modelled from the spec: the declarations of \<^verbatim>\<open>Body.BodyError\<close> and
  \<^verbatim>\<open>PlatformError.PlatformError\<close>, the two recoverable failures, are not among the sources;
  the spec names a "body-encoding failure" and a "platform I/O failure (file body could not
  be read, e.g., not found, permission denied)".
\<close>

datatype BodyError = BodyEncodingFailure

datatype PlatformError = NotFound | PermissionDenied | OtherIOFailure

text \<open>
  An \<^verbatim>\<open>Effect<A, E>\<close> is modelled by the result of running it: the failure \<open>Inl e\<close> or the
  success \<open>Inr a\<close>.
\<close>

type_synonym ('a, 'e) Effect = "'e + 'a"

definition Effect_map :: "('a, 'e) Effect \<Rightarrow> ('a \<Rightarrow> 'b) \<Rightarrow> ('b, 'e) Effect" where
  "Effect_map self f = (case self of Inl e \<Rightarrow> Inl e | Inr a \<Rightarrow> Inr (f a))"

subsection \<open>The request descriptor and its transformations\<close>

datatype Method = GET | POST | PUT | PATCH | DELETE | HEAD | OPTIONS

record ClientRequest =
  "method" :: Method
  url :: jsstring
  urlParams :: UrlParams
  hash :: "jsstring option"
  headers :: Headers
  body :: Body

definition makeInternal ::
  "Method \<Rightarrow> jsstring \<Rightarrow> UrlParams \<Rightarrow> jsstring option \<Rightarrow> Headers \<Rightarrow> Body \<Rightarrow> ClientRequest" where
  "makeInternal method' url' urlParams' hash' headers' body' =
     \<lparr>method = method', url = url', urlParams = urlParams', hash = hash',
      headers = headers', body = body'\<rparr>"

definition empty :: ClientRequest where
  "empty = makeInternal GET [] UrlParams_empty None Headers_empty internalBody_empty"

definition setHeader :: "ClientRequest \<Rightarrow> jsstring \<Rightarrow> jsstring \<Rightarrow> ClientRequest" where
  "setHeader self key val =
     makeInternal (method self) (url self) (urlParams self) (hash self)
       (Headers_set (headers self) key val) (body self)"

definition setHeaders :: "ClientRequest \<Rightarrow> Headers_Input \<Rightarrow> ClientRequest" where
  "setHeaders self input =
     makeInternal (method self) (url self) (urlParams self) (hash self)
       (Headers_setAll (headers self) input) (body self)"

text \<open>
  \<^verbatim>\<open>btoa\<close> throws on a code unit above 255, and \<^verbatim>\<open>basicAuth\<close> does not catch: the
  exception is the \<open>Inl\<close> result.
\<close>

definition basicAuth :: "ClientRequest \<Rightarrow> jsstring \<Rightarrow> jsstring \<Rightarrow> fault + ClientRequest" where
  "basicAuth self username password =
     (case btoa (username @ js '':'' @ password) of
        Inl e \<Rightarrow> Inl e
      | Inr encoded \<Rightarrow> Inr (setHeader self (js ''Authorization'') (js ''Basic '' @ encoded)))"

definition bearerToken :: "ClientRequest \<Rightarrow> jsstring \<Rightarrow> ClientRequest" where
  "bearerToken self token = setHeader self (js ''Authorization'') (js ''Bearer '' @ token)"

definition accept :: "ClientRequest \<Rightarrow> jsstring \<Rightarrow> ClientRequest" where
  "accept self mediaType = setHeader self (js ''Accept'') mediaType"

definition acceptJson :: "ClientRequest \<Rightarrow> ClientRequest" where
  "acceptJson self = accept self (js ''application/json'')"

definition setMethod :: "ClientRequest \<Rightarrow> Method \<Rightarrow> ClientRequest" where
  "setMethod self method' =
     makeInternal method' (url self) (urlParams self) (hash self) (headers self) (body self)"

datatype UrlInput = UrlString jsstring | UrlObject URL

definition setUrl :: "ClientRequest \<Rightarrow> UrlInput \<Rightarrow> ClientRequest" where
  "setUrl self url' =
     (case url' of
        UrlString s \<Rightarrow>
          makeInternal (method self) s (urlParams self) (hash self) (headers self) (body self)
      | UrlObject u \<Rightarrow>
          (let clone = URL_new (URL_toString u);
               urlParams' = UrlParams_fromInput (URL_searchParams clone);
               hash' = (if truthy (URL_hash clone) then Some (slice (URL_hash clone) 1)
                        else None);
               clone = URL_clear_search clone;
               clone = URL_clear_hash clone
           in makeInternal (method self) (URL_toString clone) urlParams' hash'
                (headers self) (body self)))"

definition appendUrl :: "ClientRequest \<Rightarrow> jsstring \<Rightarrow> ClientRequest" where
  "appendUrl self url' =
     makeInternal (method self)
       (if endsWith (url self) (js ''/'') \<and> startsWith url' (js ''/'')
        then url self @ slice url' 1 else url self @ url')
       (urlParams self) (hash self) (headers self) (body self)"

definition prependUrl :: "ClientRequest \<Rightarrow> jsstring \<Rightarrow> ClientRequest" where
  "prependUrl self url' =
     makeInternal (method self)
       (if endsWith url' (js ''/'') \<and> startsWith (url self) (js ''/'')
        then url' @ slice (url self) 1 else url' @ url self)
       (urlParams self) (hash self) (headers self) (body self)"

definition updateUrl :: "ClientRequest \<Rightarrow> (jsstring \<Rightarrow> jsstring) \<Rightarrow> ClientRequest" where
  "updateUrl self f =
     makeInternal (method self) (f (url self)) (urlParams self) (hash self) (headers self)
       (body self)"

definition appendUrlParam :: "ClientRequest \<Rightarrow> jsstring \<Rightarrow> jsstring \<Rightarrow> ClientRequest" where
  "appendUrlParam self key val =
     makeInternal (method self) (url self) (UrlParams_append (urlParams self) key val)
       (hash self) (headers self) (body self)"

definition appendUrlParams :: "ClientRequest \<Rightarrow> UrlParams_Input \<Rightarrow> ClientRequest" where
  "appendUrlParams self input =
     makeInternal (method self) (url self) (UrlParams_appendAll (urlParams self) input)
       (hash self) (headers self) (body self)"

definition setUrlParam :: "ClientRequest \<Rightarrow> jsstring \<Rightarrow> jsstring \<Rightarrow> ClientRequest" where
  "setUrlParam self key val =
     makeInternal (method self) (url self) (UrlParams_set (urlParams self) key val)
       (hash self) (headers self) (body self)"

definition setUrlParams :: "ClientRequest \<Rightarrow> UrlParams_Input \<Rightarrow> ClientRequest" where
  "setUrlParams self input =
     makeInternal (method self) (url self) (UrlParams_setAll (urlParams self) input)
       (hash self) (headers self) (body self)"

definition setHash :: "ClientRequest \<Rightarrow> jsstring \<Rightarrow> ClientRequest" where
  "setHash self hash' =
     makeInternal (method self) (url self) (urlParams self) (Some hash') (headers self)
       (body self)"

definition removeHash :: "ClientRequest \<Rightarrow> ClientRequest" where
  "removeHash self =
     makeInternal (method self) (url self) (urlParams self) None (headers self) (body self)"

text \<open>
  \<^verbatim>\<open>setBody\<close>: the tests \<^verbatim>\<open>if (contentType)\<close> and \<^verbatim>\<open>if (contentLength)\<close> are JavaScript
  truthiness: a present, non-empty string and a present, non-zero number.
\<close>

definition setBody :: "ClientRequest \<Rightarrow> Body \<Rightarrow> ClientRequest" where
  "setBody self body' =
     (let headers0 = headers self;
          headers' =
            (if body' = Empty
             then Headers_remove (Headers_remove headers0 (js ''Content-Type''))
                    (js ''Content-length'')
             else
               (let headers1 =
                      (case contentType body' of
                         Some ct \<Rightarrow>
                           if truthy ct then Headers_set headers0 (js ''content-type'') ct
                           else headers0
                       | None \<Rightarrow> headers0)
                in case contentLength body' of
                     Some n \<Rightarrow>
                       if n \<noteq> 0
                       then Headers_set headers1 (js ''content-length'') (Number_toString n)
                       else headers1
                   | None \<Rightarrow> headers1))
      in makeInternal (method self) (url self) (urlParams self) (hash self) headers' body')"

definition uint8ArrayBody :: "ClientRequest \<Rightarrow> 8 word list \<Rightarrow> jsstring option \<Rightarrow> ClientRequest" where
  "uint8ArrayBody self b ct =
     setBody self
       (internalBody_uint8Array b
          (case ct of None \<Rightarrow> js ''application/octet-stream'' | Some c \<Rightarrow> c))"

definition textBody :: "ClientRequest \<Rightarrow> jsstring \<Rightarrow> jsstring option \<Rightarrow> ClientRequest" where
  "textBody self t ct =
     setBody self
       (internalBody_text t (case ct of None \<Rightarrow> js ''text/plain'' | Some c \<Rightarrow> c))"

text \<open>
  The encoders \<^verbatim>\<open>internalBody.json\<close>, \<^verbatim>\<open>internalBody.jsonSchema\<close> and the file reader
  \<^verbatim>\<open>internalBody.file\<close> are collaborators outside the sources: they are parameters, each
  an effect that fails with the error its type in \<^verbatim>\<open>clientRequest.ts\<close> declares.
\<close>

definition jsonBody ::
  "('u \<Rightarrow> (Body, BodyError) Effect) \<Rightarrow> ClientRequest \<Rightarrow> 'u \<Rightarrow> (ClientRequest, BodyError) Effect" where
  "jsonBody internalBody_json self b = Effect_map (internalBody_json b) (\<lambda>b'. setBody self b')"

definition fileBody ::
  "(jsstring \<Rightarrow> 'o \<Rightarrow> (Body, PlatformError) Effect) \<Rightarrow> ClientRequest \<Rightarrow> jsstring \<Rightarrow> 'o
     \<Rightarrow> (ClientRequest, PlatformError) Effect" where
  "fileBody internalBody_file self path options' =
     Effect_map (internalBody_file path options') (\<lambda>b'. setBody self b')"

definition schemaBody ::
  "('s \<Rightarrow> 'p \<Rightarrow> 'a \<Rightarrow> (Body, BodyError) Effect) \<Rightarrow> 's \<Rightarrow> 'p \<Rightarrow> ClientRequest \<Rightarrow> 'a
     \<Rightarrow> (ClientRequest, BodyError) Effect" where
  "schemaBody internalBody_jsonSchema schema options' =
     (let encode = internalBody_jsonSchema schema options'
      in (\<lambda>self b. Effect_map (encode b) (\<lambda>b'. setBody self b')))"

definition urlParamsBody :: "ClientRequest \<Rightarrow> UrlParams_Input \<Rightarrow> ClientRequest" where
  "urlParamsBody self b =
     setBody self
       (internalBody_text (UrlParams_toString (UrlParams_fromInput b))
          (js ''application/x-www-form-urlencoded''))"

definition formDataBody :: "ClientRequest \<Rightarrow> (jsstring \<times> jsstring) list \<Rightarrow> ClientRequest" where
  "formDataBody self b = setBody self (internalBody_formData b)"

definition streamBody ::
  "ClientRequest \<Rightarrow> 8 word list list \<Rightarrow> jsstring option \<Rightarrow> nat option \<Rightarrow> ClientRequest" where
  "streamBody self chunks ct n =
     setBody self
       (internalBody_stream chunks
          (case ct of None \<Rightarrow> js ''application/octet-stream'' | Some c \<Rightarrow> c) n)"

subsection \<open>Options, \<open>modify\<close> and the constructors\<close>

text \<open>
  \<^verbatim>\<open>ClientRequest.Options\<close>: every key is optional; an absent key reads \<^verbatim>\<open>undefined\<close>,
  here \<open>None\<close>. A record has no enumeration order of keys. \<^verbatim>\<open>modify\<close> tests each option
  with \<^verbatim>\<open>if (options.key)\<close>, so an option takes effect when it is present and truthy:
  a method name, an object (headers, parameters, body, URL object), a non-empty string,
  the boolean \<^verbatim>\<open>true\<close>.
\<close>

record Options =
  o_method :: "Method option"
  o_url :: "UrlInput option"
  o_headers :: "Headers_Input option"
  o_urlParams :: "UrlParams_Input option"
  o_hash :: "jsstring option"
  o_body :: "Body option"
  o_accept :: "jsstring option"
  o_acceptJson :: "bool option"

fun truthy_url :: "UrlInput \<Rightarrow> bool" where
  "truthy_url (UrlString s) = truthy s"
| "truthy_url (UrlObject _) = True"

definition modify :: "ClientRequest \<Rightarrow> Options \<Rightarrow> ClientRequest" where
  "modify self options' =
     (let result = self;
          result = (case o_method options' of
                      Some m \<Rightarrow> setMethod result m | None \<Rightarrow> result);
          result = (case o_url options' of
                      Some u \<Rightarrow> if truthy_url u then setUrl result u else result
                    | None \<Rightarrow> result);
          result = (case o_headers options' of
                      Some h \<Rightarrow> setHeaders result h | None \<Rightarrow> result);
          result = (case o_urlParams options' of
                      Some p \<Rightarrow> setUrlParams result p | None \<Rightarrow> result);
          result = (case o_hash options' of
                      Some h \<Rightarrow> if truthy h then setHash result h else result
                    | None \<Rightarrow> result);
          result = (case o_body options' of
                      Some b \<Rightarrow> setBody result b | None \<Rightarrow> result);
          result = (case o_accept options' of
                      Some a \<Rightarrow> if truthy a then accept result a else result
                    | None \<Rightarrow> result);
          result = (case o_acceptJson options' of
                      Some a \<Rightarrow> if a then acceptJson result else result
                    | None \<Rightarrow> result)
      in result)"

text \<open>
  The options of a constructor have the type \<^verbatim>\<open>Options.NoUrl\<close> (for GET and HEAD
  \<^verbatim>\<open>Options.NoBody\<close>, which also has no body): \<^verbatim>\<open>Options\<close> without the keys \<^verbatim>\<open>method\<close>
  and \<^verbatim>\<open>url\<close>. The spread \<^verbatim>\<open>{method, url, ...options}\<close> therefore keeps the method and
  the URL of the call; an absent options argument spreads to nothing.
\<close>

record Options_NoUrl =
  n_headers :: "Headers_Input option"
  n_urlParams :: "UrlParams_Input option"
  n_hash :: "jsstring option"
  n_body :: "Body option"
  n_accept :: "jsstring option"
  n_acceptJson :: "bool option"

definition spread :: "Method \<Rightarrow> UrlInput \<Rightarrow> Options_NoUrl option \<Rightarrow> Options" where
  "spread method' url' options' =
     (case options' of
        None \<Rightarrow>
          \<lparr>o_method = Some method', o_url = Some url', o_headers = None, o_urlParams = None,
           o_hash = None, o_body = None, o_accept = None, o_acceptJson = None\<rparr>
      | Some n \<Rightarrow>
          \<lparr>o_method = Some method', o_url = Some url', o_headers = n_headers n,
           o_urlParams = n_urlParams n, o_hash = n_hash n, o_body = n_body n,
           o_accept = n_accept n, o_acceptJson = n_acceptJson n\<rparr>)"

definition make :: "Method \<Rightarrow> UrlInput \<Rightarrow> Options_NoUrl option \<Rightarrow> ClientRequest" where
  "make method' url' options' = modify empty (spread method' url' options')"

definition get :: "UrlInput \<Rightarrow> Options_NoUrl option \<Rightarrow> ClientRequest" where
  "get = make GET"

definition post :: "UrlInput \<Rightarrow> Options_NoUrl option \<Rightarrow> ClientRequest" where
  "post = make POST"

definition put :: "UrlInput \<Rightarrow> Options_NoUrl option \<Rightarrow> ClientRequest" where
  "put = make PUT"

definition patch :: "UrlInput \<Rightarrow> Options_NoUrl option \<Rightarrow> ClientRequest" where
  "patch = make PATCH"

definition del :: "UrlInput \<Rightarrow> Options_NoUrl option \<Rightarrow> ClientRequest" where
  "del = make DELETE"

definition head :: "UrlInput \<Rightarrow> Options_NoUrl option \<Rightarrow> ClientRequest" where
  "head = make HEAD"

definition options :: "UrlInput \<Rightarrow> Options_NoUrl option \<Rightarrow> ClientRequest" where
  "options = make OPTIONS"

subsection \<open>The statements of the specification, as definitions\<close>

text \<open>
  Modelled from the spec: the reserialisation of a descriptor is not a function of
  \<^verbatim>\<open>clientRequest.ts\<close>. The spec writes it as "base url + \<^verbatim>\<open>?\<close> + encoded params + \<^verbatim>\<open>#\<close> +
  fragment"; a separator is written only where the part after it exists.
\<close>

definition reserialize :: "ClientRequest \<Rightarrow> jsstring" where
  "reserialize d =
     url d
     @ (if urlParams d = [] then [] else js ''?'' @ UrlParams_toString (urlParams d))
     @ (case hash d of None \<Rightarrow> [] | Some f \<Rightarrow> js ''#'' @ f)"

text \<open>
  Modelled from the spec: \<open>modify_spec\<close> is \<^verbatim>\<open>modify\<close> in the spec's words, "each present
  option triggers the corresponding single-field setter, applied in a fixed order (method,
  url, headers, urlParams, hash, body, accept, acceptJson)". It is compared with \<open>modify\<close>,
  the function of the source.
\<close>

definition when_present ::
  "'a option \<Rightarrow> (ClientRequest \<Rightarrow> 'a \<Rightarrow> ClientRequest) \<Rightarrow> ClientRequest \<Rightarrow> ClientRequest" where
  "when_present opt setter r = (case opt of None \<Rightarrow> r | Some v \<Rightarrow> setter r v)"

definition modify_spec :: "ClientRequest \<Rightarrow> Options \<Rightarrow> ClientRequest" where
  "modify_spec d opts =
     (when_present (o_acceptJson opts) (\<lambda>r _. acceptJson r)
      \<circ> when_present (o_accept opts) accept
      \<circ> when_present (o_body opts) setBody
      \<circ> when_present (o_hash opts) setHash
      \<circ> when_present (o_urlParams opts) setUrlParams
      \<circ> when_present (o_headers opts) setHeaders
      \<circ> when_present (o_url opts) setUrl
      \<circ> when_present (o_method opts) setMethod) d"

text \<open>The options that JavaScript takes for true: a falsy option counts as absent.\<close>

definition keep_if :: "('a \<Rightarrow> bool) \<Rightarrow> 'a option \<Rightarrow> 'a option" where
  "keep_if p opt = (case opt of None \<Rightarrow> None | Some v \<Rightarrow> if p v then Some v else None)"

definition truthy_options :: "Options \<Rightarrow> Options" where
  "truthy_options opts =
     opts\<lparr>o_url := keep_if truthy_url (o_url opts),
          o_hash := keep_if truthy (o_hash opts),
          o_accept := keep_if truthy (o_accept opts),
          o_acceptJson := keep_if (\<lambda>a. a) (o_acceptJson opts)\<rparr>"

definition no_options :: Options where
  "no_options =
     \<lparr>o_method = None, o_url = None, o_headers = None, o_urlParams = None, o_hash = None,
      o_body = None, o_accept = None, o_acceptJson = None\<rparr>"

section \<open>Properties\<close>

subsection \<open>Auxiliary facts\<close>

lemma endsWith_slash: "endsWith s (js ''/'') \<longleftrightarrow> (\<exists>a. s = a @ js ''/'')"
proof
  assume "endsWith s (js ''/'')"
  then have "s = take (length s - 1) s @ js ''/''"
    by (simp add: endsWith_def js_def) (metis append_take_drop_id)
  then show "\<exists>a. s = a @ js ''/''" ..
next
  assume "\<exists>a. s = a @ js ''/''"
  then show "endsWith s (js ''/'')" by (auto simp: endsWith_def js_def)
qed

lemma startsWith_slash: "startsWith s (js ''/'') \<longleftrightarrow> (\<exists>b. s = js ''/'' @ b)"
  by (cases s) (auto simp: startsWith_def js_def)

lemma length_encode_hi: "length (TextEncoder_encode (js ''hi'')) = 2"
  by (simp add: js_def isHigh_def isLow_def utf8_of_codepoint_def)

lemma Number_toString_2: "Number_toString 2 = js ''2''"
  by (simp add: Number_toString.simps js_def)

lemma modify_url:
  "url (modify d opts) =
     (case o_url opts of
        Some u \<Rightarrow> if truthy_url u then url (setUrl d u) else url d
      | None \<Rightarrow> url d)"
  by (simp add: modify_def Let_def setMethod_def setUrl_def setHeaders_def setUrlParams_def
      setHash_def setBody_def accept_def acceptJson_def setHeader_def makeInternal_def
      split: option.splits UrlInput.splits)

lemma modify_method:
  "method (modify d opts) = (case o_method opts of Some m \<Rightarrow> m | None \<Rightarrow> method d)"
  by (simp add: modify_def Let_def setMethod_def setUrl_def setHeaders_def setUrlParams_def
      setHash_def setBody_def accept_def acceptJson_def setHeader_def makeInternal_def
      split: option.splits UrlInput.splits)

lemma modify_body:
  "body (modify d opts) = (case o_body opts of Some b \<Rightarrow> b | None \<Rightarrow> body d)"
  by (simp add: modify_def Let_def setMethod_def setUrl_def setHeaders_def setUrlParams_def
      setHash_def setBody_def accept_def acceptJson_def setHeader_def makeInternal_def
      split: option.splits UrlInput.splits)

lemma base_URL_new: "0x3F \<notin> set (base (URL_new s)) \<and> 0x23 \<notin> set (base (URL_new s))"
proof -
  have "set (takeWhile (\<lambda>x. x \<noteq> 0x3F) (takeWhile (\<lambda>x. x \<noteq> (0x23::jschar)) s))
        \<subseteq> {x. x \<noteq> 0x3F} \<inter> {x. x \<noteq> 0x23}"
    by (auto dest: set_takeWhileD)
  then show ?thesis
    by (auto simp: URL_new_def split_first_def Let_def)
qed

lemma url_setUrl_object: "url (setUrl d (UrlObject u)) = base (URL_new (URL_toString u))"
  by (simp add: setUrl_def Let_def makeInternal_def URL_toString_def URL_clear_search_def
      URL_clear_hash_def)

lemma url_example:
  "URL_new (js ''https://h/p?a=1&b=2#frag'') =
     \<lparr>base = js ''https://h/p'', query = Some (js ''a=1&b=2''), fragment = Some (js ''frag'')\<rparr>"
  by (simp add: URL_new_def split_first_def js_def)

lemma url_example_toString:
  "URL_toString (URL_new (js ''https://h/p?a=1&b=2#frag'')) = js ''https://h/p?a=1&b=2#frag''"
  by (simp add: url_example URL_toString_def) (simp add: js_def)

lemma params_example:
  "parse_urlencoded (js ''a=1&b=2'') = [(js ''a'', js ''1''), (js ''b'', js ''2'')]"
  by (simp add: parse_urlencoded_def split_on_def parse_pair_def split_first_def urldecode_def
      js_def)

lemma toString_example:
  "UrlParams_toString [(js ''a'', js ''1''), (js ''b'', js ''2'')] = js ''a=1&b=2''"
  by (simp add: urlencode_def urlencode_byte_def js_def isHigh_def isLow_def
      utf8_of_codepoint_def)

lemma base64_example:
  "base64 (map unat (js ''user'' @ js '':'' @ js ''pass'')) = js ''dXNlcjpwYXNz''"
  by (simp add: js_def b64char_def)

lemma latin1_colon: "list_all (\<lambda>c. c \<le> 0xFF) (js '':'')"
  by (simp add: js_def)

subsection \<open>Body and headers\<close>

text \<open>
  C1. Setting a body keeps the \<^verbatim>\<open>Content-Type\<close> and \<^verbatim>\<open>Content-Length\<close> headers consistent
  with the body. The first four statements hold: the Empty body removes both headers, and
  the text body \<^verbatim>\<open>"hi"\<close> of type \<^verbatim>\<open>text/plain\<close> sets them to \<^verbatim>\<open>text/plain\<close> and \<^verbatim>\<open>2\<close>. The
  last six show where the code leaves the claim: a form body or a stream of unknown length,
  set on a descriptor that carried the text body, has no content type or no content
  length of its own, and the headers \<^verbatim>\<open>text/plain\<close> and \<^verbatim>\<open>2\<close> of the previous body stay,
  because the branch for a non-Empty body only ever sets a header and never removes one.
\<close>

theorem setBody_stale_headers:
  "Headers_get (headers (setBody d Empty)) (js ''Content-Type'') = None
   \<and> Headers_get (headers (setBody d Empty)) (js ''Content-Length'') = None
   \<and> Headers_get (headers (setBody d (internalBody_text (js ''hi'') (js ''text/plain''))))
        (js ''content-type'') = Some (js ''text/plain'')
   \<and> Headers_get (headers (setBody d (internalBody_text (js ''hi'') (js ''text/plain''))))
        (js ''content-length'') = Some (js ''2'')
   \<and> contentType (body (formDataBody (textBody empty (js ''hi'') (Some (js ''text/plain''))) []))
       = None
   \<and> contentLength (body (formDataBody (textBody empty (js ''hi'') (Some (js ''text/plain''))) []))
       = None
   \<and> Headers_get (headers (formDataBody (textBody empty (js ''hi'') (Some (js ''text/plain''))) []))
        (js ''content-type'') = Some (js ''text/plain'')
   \<and> Headers_get (headers (formDataBody (textBody empty (js ''hi'') (Some (js ''text/plain''))) []))
        (js ''content-length'') = Some (js ''2'')
   \<and> contentLength (body (streamBody (textBody empty (js ''hi'') None) [] None None)) = None
   \<and> Headers_get (headers (streamBody (textBody empty (js ''hi'') None) [] None None))
        (js ''content-length'') = Some (js ''2'')"
  by (simp add: setBody_def formDataBody_def textBody_def streamBody_def empty_def
      makeInternal_def internalBody_text_def internalBody_formData_def internalBody_stream_def
      internalBody_empty_def Headers_get_def Headers_set_def Headers_remove_def
      Headers_empty_def truthy_def toLowerCase_def Let_def length_encode_hi Number_toString_2)
    (simp add: js_def)

subsection \<open>Setters and their frame\<close>

text \<open>
  C2, as the claim states it, fails: \<^verbatim>\<open>setBody\<close> replaces two fields. On the empty
  descriptor, setting the text body \<^verbatim>\<open>"hi"\<close> changes the headers and the body.
\<close>

theorem setBody_two_fields_counterexample:
  "headers (setBody empty (internalBody_text (js ''hi'') (js ''text/plain''))) \<noteq> headers empty
   \<and> body (setBody empty (internalBody_text (js ''hi'') (js ''text/plain''))) \<noteq> body empty"
proof -
  have "headers (setBody empty (internalBody_text (js ''hi'') (js ''text/plain'')))
          (js ''content-type'')
        \<noteq> headers empty (js ''content-type'')"
    by (simp add: setBody_def empty_def makeInternal_def internalBody_text_def
        internalBody_empty_def Headers_set_def Headers_empty_def truthy_def toLowerCase_def
        js_def Let_def)
  then have "headers (setBody empty (internalBody_text (js ''hi'') (js ''text/plain'')))
             \<noteq> headers empty"
    by metis
  moreover have "body (setBody empty (internalBody_text (js ''hi'') (js ''text/plain'')))
                 \<noteq> body empty"
    by (simp add: setBody_def empty_def makeInternal_def internalBody_text_def
        internalBody_empty_def Let_def)
  ultimately show ?thesis by simp
qed

text \<open>
  C2, amended. Every setter returns a descriptor that is its input with the setter's own
  field replaced: \<^verbatim>\<open>setMethod\<close> the method, \<^verbatim>\<open>setUrl\<close> with a string the url, \<^verbatim>\<open>setHeader\<close>
  and \<^verbatim>\<open>setHeaders\<close> the headers, the four parameter setters the parameters, \<^verbatim>\<open>setHash\<close> and
  \<^verbatim>\<open>removeHash\<close> the hash. Two setters replace more than one field: \<^verbatim>\<open>setBody\<close> replaces
  the body and the headers, and \<^verbatim>\<open>setUrl\<close> with a URL object replaces the url, the
  parameters and the hash. The input is a value and is not changed by any of them.
\<close>

theorem setters_frame:
  "setMethod d m = d\<lparr>method := m\<rparr>
   \<and> setUrl d (UrlString s) = d\<lparr>url := s\<rparr>
   \<and> setHeader d k v = d\<lparr>headers := Headers_set (headers d) k v\<rparr>
   \<and> setHeaders d hs = d\<lparr>headers := Headers_setAll (headers d) hs\<rparr>
   \<and> setUrlParam d k v = d\<lparr>urlParams := UrlParams_set (urlParams d) k v\<rparr>
   \<and> setUrlParams d ps = d\<lparr>urlParams := UrlParams_setAll (urlParams d) ps\<rparr>
   \<and> appendUrlParam d k v = d\<lparr>urlParams := UrlParams_append (urlParams d) k v\<rparr>
   \<and> appendUrlParams d ps = d\<lparr>urlParams := UrlParams_appendAll (urlParams d) ps\<rparr>
   \<and> setHash d h = d\<lparr>hash := Some h\<rparr>
   \<and> removeHash d = d\<lparr>hash := None\<rparr>
   \<and> setBody d b = d\<lparr>headers := headers (setBody d b), body := b\<rparr>
   \<and> setUrl d (UrlObject u) =
       d\<lparr>url := url (setUrl d (UrlObject u)), urlParams := urlParams (setUrl d (UrlObject u)),
         hash := hash (setUrl d (UrlObject u))\<rparr>"
  by (simp add: setMethod_def setUrl_def setHeader_def setHeaders_def setUrlParam_def
      setUrlParams_def appendUrlParam_def appendUrlParams_def setHash_def removeHash_def
      setBody_def makeInternal_def Let_def)

subsection \<open>\<open>modify\<close>\<close>

text \<open>
  C3, as the claim states it, fails: a present option whose value is falsy is skipped.
  With the option \<^verbatim>\<open>url: ""\<close> a descriptor of url \<^verbatim>\<open>/old\<close> keeps \<^verbatim>\<open>/old\<close>, where applying
  \<^verbatim>\<open>setUrl\<close> gives the empty url; with the option \<^verbatim>\<open>hash: ""\<close> the empty descriptor keeps no
  hash, where applying \<^verbatim>\<open>setHash\<close> gives the empty hash.
\<close>

theorem modify_falsy_option_counterexample:
  "url (modify (setUrl empty (UrlString (js ''/old'')))
          (no_options\<lparr>o_url := Some (UrlString [])\<rparr>)) = js ''/old''
   \<and> url (modify_spec (setUrl empty (UrlString (js ''/old'')))
            (no_options\<lparr>o_url := Some (UrlString [])\<rparr>)) = []
   \<and> hash (modify empty (no_options\<lparr>o_hash := Some []\<rparr>)) = None
   \<and> hash (modify_spec empty (no_options\<lparr>o_hash := Some []\<rparr>)) = Some []"
  by (simp add: modify_url modify_spec_def when_present_def no_options_def setUrl_def
      makeInternal_def truthy_def modify_def Let_def setHash_def empty_def)

text \<open>
  C3, amended. \<^verbatim>\<open>modify\<close> applies, for each option that is present and truthy (a method,
  a URL object or non-empty url string, headers, parameters, a non-empty hash, a body, a
  non-empty accept string, \<^verbatim>\<open>acceptJson: true\<close>), the corresponding setter, in the fixed
  order method, url, headers, urlParams, hash, body, accept, acceptJson; the options are a
  record, so no enumeration order of keys enters. With the options \<^verbatim>\<open>url: "/new"\<close> and
  \<^verbatim>\<open>accept: "application/json"\<close> the result has the url \<^verbatim>\<open>/new\<close> and the Accept header
  \<^verbatim>\<open>application/json\<close>.
\<close>

theorem modify_truthy_options_in_order:
  "modify d opts = modify_spec d (truthy_options opts)
   \<and> url (modify d (no_options\<lparr>o_url := Some (UrlString (js ''/new'')),
                                 o_accept := Some (js ''application/json'')\<rparr>)) = js ''/new''
   \<and> Headers_get (headers (modify d (no_options\<lparr>o_url := Some (UrlString (js ''/new'')),
                                 o_accept := Some (js ''application/json'')\<rparr>))) (js ''Accept'')
       = Some (js ''application/json'')"
proof -
  have a: "modify d opts = modify_spec d (truthy_options opts)"
    by (simp add: modify_def modify_spec_def truthy_options_def when_present_def keep_if_def
        Let_def split: option.splits)
  have b: "url (modify d (no_options\<lparr>o_url := Some (UrlString (js ''/new'')),
                                 o_accept := Some (js ''application/json'')\<rparr>)) = js ''/new''"
    by (simp add: modify_url no_options_def truthy_def setUrl_def makeInternal_def)
      (simp add: js_def)
  have c: "Headers_get (headers (modify d (no_options\<lparr>o_url := Some (UrlString (js ''/new'')),
                                 o_accept := Some (js ''application/json'')\<rparr>))) (js ''Accept'')
       = Some (js ''application/json'')"
    by (simp add: modify_def Let_def no_options_def truthy_def setUrl_def makeInternal_def
        accept_def setHeader_def Headers_get_def Headers_set_def js_def)
  from a b c show ?thesis by blast
qed

subsection \<open>URLs\<close>

text \<open>
  C4, as the claim states it, fails: a URL given as a string is stored as it is. The
  descriptor constructed from the string \<^verbatim>\<open>https://h/p?a=1#frag\<close> has a url that contains
  \<^verbatim>\<open>?\<close> and \<^verbatim>\<open>#\<close>.
\<close>

theorem string_url_verbatim_counterexample:
  "0x3F \<in> set (url (make GET (UrlString (js ''https://h/p?a=1#frag'')) None))
   \<and> 0x23 \<in> set (url (make GET (UrlString (js ''https://h/p?a=1#frag'')) None))"
  by (simp add: make_def spread_def modify_url setUrl_def makeInternal_def truthy_def js_def)

text \<open>
  C4, amended. When the url is given as a parsed URL object, to \<^verbatim>\<open>setUrl\<close> or to a
  constructor, the url field contains neither \<^verbatim>\<open>?\<close> nor \<^verbatim>\<open>#\<close>: the query becomes the
  parameters and a non-empty fragment becomes the hash. A url given as a string is stored
  as it is. The setters that do not write the url (\<^verbatim>\<open>setMethod\<close>, \<^verbatim>\<open>setHeader\<close>,
  \<^verbatim>\<open>setHeaders\<close>, the parameter setters, \<^verbatim>\<open>setHash\<close>, \<^verbatim>\<open>removeHash\<close>, \<^verbatim>\<open>setBody\<close>) keep it.
\<close>

theorem url_object_decomposed:
  "0x3F \<notin> set (url (setUrl d (UrlObject u))) \<and> 0x23 \<notin> set (url (setUrl d (UrlObject u)))
   \<and> 0x3F \<notin> set (url (make M (UrlObject u) opts))
   \<and> 0x23 \<notin> set (url (make M (UrlObject u) opts))
   \<and> urlParams (setUrl d (UrlObject u)) = URL_searchParams (URL_new (URL_toString u))
   \<and> hash (setUrl d (UrlObject u)) =
       (case fragment (URL_new (URL_toString u)) of
          None \<Rightarrow> None | Some f \<Rightarrow> if f = [] then None else Some f)
   \<and> url (setUrl d (UrlString s)) = s
   \<and> url (setMethod d m) = url d \<and> url (setHeader d k v) = url d
   \<and> url (setHeaders d hs) = url d \<and> url (setUrlParam d k v) = url d
   \<and> url (setUrlParams d ps) = url d \<and> url (appendUrlParam d k v) = url d
   \<and> url (appendUrlParams d ps) = url d \<and> url (setHash d h) = url d
   \<and> url (removeHash d) = url d \<and> url (setBody d b) = url d"
proof -
  have a: "0x3F \<notin> set (url (setUrl d (UrlObject u)))
      \<and> 0x23 \<notin> set (url (setUrl d (UrlObject u)))"
    using base_URL_new by (simp add: url_setUrl_object)
  have b: "0x3F \<notin> set (url (make M (UrlObject u) opts))
      \<and> 0x23 \<notin> set (url (make M (UrlObject u) opts))"
    using base_URL_new
    by (cases opts) (simp_all add: make_def spread_def modify_url url_setUrl_object)
  have c: "urlParams (setUrl d (UrlObject u)) = URL_searchParams (URL_new (URL_toString u))"
    by (simp add: setUrl_def Let_def makeInternal_def UrlParams_fromInput_def)
  have e: "hash (setUrl d (UrlObject u)) =
       (case fragment (URL_new (URL_toString u)) of
          None \<Rightarrow> None | Some f \<Rightarrow> if f = [] then None else Some f)"
    by (simp add: setUrl_def Let_def makeInternal_def URL_hash_def truthy_def slice_def
        split: option.splits)
  have f: "url (setUrl d (UrlString s)) = s
   \<and> url (setMethod d m) = url d \<and> url (setHeader d k v) = url d
   \<and> url (setHeaders d hs) = url d \<and> url (setUrlParam d k v) = url d
   \<and> url (setUrlParams d ps) = url d \<and> url (appendUrlParam d k v) = url d
   \<and> url (appendUrlParams d ps) = url d \<and> url (setHash d h) = url d
   \<and> url (removeHash d) = url d \<and> url (setBody d b) = url d"
    by (simp add: setMethod_def setUrl_def setHeader_def setHeaders_def setUrlParam_def
      setUrlParams_def appendUrlParam_def appendUrlParams_def setHash_def removeHash_def
      setBody_def makeInternal_def Let_def)
  from a b c e f show ?thesis by blast
qed

text \<open>
  C5. A descriptor constructed (for any method, without options) from the parsed URL
  \<^verbatim>\<open>https://h/p?a=1&b=2#frag\<close> has the url \<^verbatim>\<open>https://h/p\<close>, the parameters \<open>(a, 1)\<close>,
  \<open>(b, 2)\<close> in this order and the hash \<^verbatim>\<open>frag\<close> without its \<^verbatim>\<open>#\<close>; the other fields are
  those of the empty descriptor. Its reserialisation is the URL it came from.
\<close>

theorem url_decomposition_example:
  "make M (UrlObject (URL_new (js ''https://h/p?a=1&b=2#frag''))) None =
     \<lparr>method = M, url = js ''https://h/p'',
      urlParams = [(js ''a'', js ''1''), (js ''b'', js ''2'')],
      hash = Some (js ''frag''), headers = Map.empty, body = Empty\<rparr>
   \<and> reserialize (make M (UrlObject (URL_new (js ''https://h/p?a=1&b=2#frag''))) None) =
       js ''https://h/p?a=1&b=2#frag''"
proof -
  have a: "make M (UrlObject (URL_new (js ''https://h/p?a=1&b=2#frag''))) None =
     \<lparr>method = M, url = js ''https://h/p'',
      urlParams = [(js ''a'', js ''1''), (js ''b'', js ''2'')],
      hash = Some (js ''frag''), headers = Map.empty, body = Empty\<rparr>"
    apply (simp add: make_def spread_def modify_def Let_def setMethod_def setUrl_def
        makeInternal_def empty_def UrlParams_empty_def Headers_empty_def internalBody_empty_def
        url_example_toString UrlParams_fromInput_def)
    apply (simp add: url_example URL_searchParams_def params_example URL_hash_def truthy_def
        slice_def URL_clear_search_def URL_clear_hash_def URL_toString_def)
    apply (simp add: js_def)
    done
  show ?thesis
    unfolding a
    by (simp add: reserialize_def toString_example del: UrlParams_toString.simps)
      (simp add: js_def)
qed

text \<open>
  C6. \<^verbatim>\<open>appendUrl\<close> sets the url to the concatenation of the descriptor's url and the path,
  and \<^verbatim>\<open>prependUrl\<close> to the concatenation of the path and the url; one slash is removed at
  the seam exactly when the left part ends with a slash and the right part starts with
  one, and no slash is ever inserted. Appending \<^verbatim>\<open>/b\<close> to \<^verbatim>\<open>http://h/a/\<close> gives
  \<^verbatim>\<open>http://h/a/b\<close>, appending \<^verbatim>\<open>b\<close> to \<^verbatim>\<open>http://h/a\<close> gives \<^verbatim>\<open>http://h/ab\<close>. Every field
  other than the url is unchanged.
\<close>

theorem appendUrl_prependUrl_join:
  "url (appendUrl d p) =
     (if (\<exists>a. url d = a @ js ''/'') \<and> (\<exists>b. p = js ''/'' @ b)
      then butlast (url d) @ p else url d @ p)
   \<and> url (prependUrl d p) =
     (if (\<exists>a. p = a @ js ''/'') \<and> (\<exists>b. url d = js ''/'' @ b)
      then butlast p @ url d else p @ url d)
   \<and> url (appendUrl (setUrl d (UrlString (js ''http://h/a/''))) (js ''/b'')) = js ''http://h/a/b''
   \<and> url (appendUrl (setUrl d (UrlString (js ''http://h/a''))) (js ''b'')) = js ''http://h/ab''
   \<and> appendUrl d p = d\<lparr>url := url (appendUrl d p)\<rparr>
   \<and> prependUrl d p = d\<lparr>url := url (prependUrl d p)\<rparr>"
proof -
  have a: "url (appendUrl d p) =
     (if (\<exists>a. url d = a @ js ''/'') \<and> (\<exists>b. p = js ''/'' @ b)
      then butlast (url d) @ p else url d @ p)"
    unfolding appendUrl_def makeInternal_def endsWith_slash startsWith_slash
    by (auto simp: slice_def js_def butlast_append)
  have b: "url (prependUrl d p) =
     (if (\<exists>a. p = a @ js ''/'') \<and> (\<exists>b. url d = js ''/'' @ b)
      then butlast p @ url d else p @ url d)"
    unfolding prependUrl_def makeInternal_def endsWith_slash startsWith_slash
    by (auto simp: slice_def js_def butlast_append)
  have c: "url (appendUrl (setUrl d (UrlString (js ''http://h/a/''))) (js ''/b''))
           = js ''http://h/a/b''"
    by (simp add: appendUrl_def setUrl_def makeInternal_def endsWith_def startsWith_def
        slice_def js_def)
  have e: "url (appendUrl (setUrl d (UrlString (js ''http://h/a''))) (js ''b''))
           = js ''http://h/ab''"
    by (simp add: appendUrl_def setUrl_def makeInternal_def endsWith_def startsWith_def
        slice_def js_def)
  have f: "appendUrl d p = d\<lparr>url := url (appendUrl d p)\<rparr>"
    by (simp add: appendUrl_def makeInternal_def)
  have g: "prependUrl d p = d\<lparr>url := url (prependUrl d p)\<rparr>"
    by (simp add: prependUrl_def makeInternal_def)
  from a b c e f g show ?thesis by blast
qed

subsection \<open>Failures\<close>

text \<open>
  C7, as the claim states it, fails: \<^verbatim>\<open>basicAuth\<close> is not total on strings. A password
  with a code unit above 255 makes \<^verbatim>\<open>btoa\<close> throw, and no descriptor is returned.
\<close>

theorem basicAuth_throws_counterexample:
  "basicAuth empty (js ''user'') [0x4E2D, 0x6587] = Inl InvalidCharacterError"
  by (simp add: basicAuth_def btoa_def js_def)

text \<open>
  C7, amended. The body setters with an encoding or reading step, which are the JSON, the
  schema and the file body setter, return a typed result: they fail exactly when their
  encoder or the file read fails, with that body-encoding error or platform I/O error, and
  otherwise return \<^verbatim>\<open>setBody\<close> of the produced body. \<^verbatim>\<open>basicAuth\<close> returns a descriptor for
  every username and password whose code units are all at most 255.
\<close>

theorem body_setter_failures:
  "(jsonBody enc d v = Inl e \<longleftrightarrow> enc v = Inl e)
   \<and> (enc v = Inr b \<longrightarrow> jsonBody enc d v = Inr (setBody d b))
   \<and> (schemaBody sch s p d a = Inl e \<longleftrightarrow> sch s p a = Inl e)
   \<and> (sch s p a = Inr b \<longrightarrow> schemaBody sch s p d a = Inr (setBody d b))
   \<and> (fileBody rd d path fo = Inl pe \<longleftrightarrow> rd path fo = Inl pe)
   \<and> (rd path fo = Inr b \<longrightarrow> fileBody rd d path fo = Inr (setBody d b))
   \<and> (list_all (\<lambda>c. c \<le> 0xFF) (username @ password) \<longrightarrow>
        (\<exists>r. basicAuth d username password = Inr r))"
proof -
  have "list_all (\<lambda>c. c \<le> 0xFF) (username @ password) \<longrightarrow>
        (\<exists>r. basicAuth d username password = Inr r)"
    using latin1_colon by (simp add: basicAuth_def btoa_def)
  then show ?thesis
    by (simp add: jsonBody_def schemaBody_def fileBody_def Effect_map_def Let_def
        split: sum.splits)
qed

theorem body_setter_failures_witness:
  "jsonBody (\<lambda>v. if v then Inr Empty else Inl BodyEncodingFailure) empty False
     = Inl BodyEncodingFailure
   \<and> jsonBody (\<lambda>v. if v then Inr Empty else Inl BodyEncodingFailure) empty True
     = Inr (setBody empty Empty)
   \<and> schemaBody (\<lambda>_ _ v. if v then Inr Empty else Inl BodyEncodingFailure) () () empty False
     = Inl BodyEncodingFailure
   \<and> schemaBody (\<lambda>_ _ v. if v then Inr Empty else Inl BodyEncodingFailure) () () empty True
     = Inr (setBody empty Empty)
   \<and> fileBody (\<lambda>p _. if p = js ''/f'' then Inr Empty else Inl NotFound) empty (js ''/g'') ()
     = Inl NotFound
   \<and> fileBody (\<lambda>p _. if p = js ''/f'' then Inr Empty else Inl NotFound) empty (js ''/f'') ()
     = Inr (setBody empty Empty)
   \<and> list_all (\<lambda>c. c \<le> 0xFF) (js ''user'' @ js ''pass'')
   \<and> (\<exists>r. basicAuth empty (js ''user'') (js ''pass'') = Inr r)"
proof -
  have h: "list_all (\<lambda>c. c \<le> 0xFF) (js ''user'' @ js ''pass'')"
    by (simp add: js_def)
  have n: "js ''/g'' \<noteq> js ''/f''"
    by (simp add: js_def)
  note t1 = body_setter_failures
    [of "\<lambda>v. if v then Inr Empty else Inl BodyEncodingFailure" empty False
      BodyEncodingFailure Empty
      "\<lambda>_ _ v. if v then Inr Empty else Inl BodyEncodingFailure" "()" "()" False
      "\<lambda>p _. if p = js ''/f'' then Inr Empty else Inl NotFound" "js ''/g''" "()" NotFound
      "js ''user''" "js ''pass''"]
  note t2 = body_setter_failures
    [of "\<lambda>v. if v then Inr Empty else Inl BodyEncodingFailure" empty True
      BodyEncodingFailure Empty
      "\<lambda>_ _ v. if v then Inr Empty else Inl BodyEncodingFailure" "()" "()" True
      "\<lambda>p _. if p = js ''/f'' then Inr Empty else Inl NotFound" "js ''/f''" "()" NotFound
      "js ''user''" "js ''pass''"]
  from t1 t2 h n show ?thesis by simp
qed

subsection \<open>Basic authentication\<close>

text \<open>
  C8, as the claim states it, fails: not every pair of strings gets a header. For the
  username \<^verbatim>\<open>U+20AC\<close> (the euro sign) \<^verbatim>\<open>btoa\<close> throws and no descriptor is returned.
\<close>

theorem basicAuth_non_latin1_counterexample:
  "basicAuth empty [0x20AC] (js ''pw'') = Inl InvalidCharacterError"
  by (simp add: basicAuth_def btoa_def js_def)

text \<open>
  C8, amended. For every descriptor and every username and password whose code units are
  all at most 255, \<^verbatim>\<open>basicAuth\<close> returns the descriptor with the Authorization header set to
  \<^verbatim>\<open>Basic\<close>, a space and the base64 encoding of username, colon, password, and with no
  other field changed. A colon inside the username or the password is not rejected: the
  credentials \<open>(u:v, p)\<close> and \<open>(u, v:p)\<close> give the same descriptor.
\<close>

theorem basicAuth_header:
  "(list_all (\<lambda>c. c \<le> 0xFF) (username @ password) \<longrightarrow>
      basicAuth d username password =
        Inr (d\<lparr>headers := (headers d)(js ''authorization'' \<mapsto>
                 js ''Basic '' @ base64 (map unat (username @ js '':'' @ password)))\<rparr>))
   \<and> basicAuth d (u @ js '':'' @ v) p = basicAuth d u (v @ js '':'' @ p)"
proof -
  have l: "toLowerCase (js ''Authorization'') = js ''authorization''"
    by (simp add: toLowerCase_def js_def)
  have a: "list_all (\<lambda>c. c \<le> 0xFF) (username @ password) \<longrightarrow>
      basicAuth d username password =
        Inr (d\<lparr>headers := (headers d)(js ''authorization'' \<mapsto>
                 js ''Basic '' @ base64 (map unat (username @ js '':'' @ password)))\<rparr>)"
    using latin1_colon
    by (simp add: basicAuth_def btoa_def setHeader_def makeInternal_def Headers_set_def l)
  have b: "basicAuth d (u @ js '':'' @ v) p = basicAuth d u (v @ js '':'' @ p)"
    by (simp add: basicAuth_def)
  from a b show ?thesis by blast
qed

theorem basicAuth_header_witness:
  "list_all (\<lambda>c. c \<le> 0xFF) (js ''user'' @ js ''pass'')
   \<and> basicAuth empty (js ''user'') (js ''pass'') =
       Inr (empty\<lparr>headers := [js ''authorization'' \<mapsto> js ''Basic dXNlcjpwYXNz'']\<rparr>)
   \<and> basicAuth empty (js ''a:b'') (js ''c'') = basicAuth empty (js ''a'') (js ''b:c'')"
proof -
  have h: "list_all (\<lambda>c. c \<le> 0xFF) (js ''user'' @ js ''pass'')"
    by (simp add: js_def)
  have e: "headers empty = Map.empty"
    by (simp add: empty_def makeInternal_def Headers_empty_def)
  have s: "js ''a:b'' = js ''a'' @ js '':'' @ js ''b''"
    "js ''b:c'' = js ''b'' @ js '':'' @ js ''c''"
    by (simp_all add: js_def)
  from basicAuth_header [of "js ''user''" "js ''pass''" empty "js ''a''" "js ''b''" "js ''c''"] h
  show ?thesis
    by (simp add: base64_example e s) (simp add: js_def b64char_def)
qed

subsection \<open>Idempotence and construction\<close>

text \<open>
  C9. Full replacement is idempotent: setting the method to \<^verbatim>\<open>POST\<close> twice gives the same
  descriptor as setting it once, and so for every method.
\<close>

theorem setMethod_idempotent:
  "setMethod (setMethod d POST) POST = setMethod d POST
   \<and> setMethod (setMethod d m) m = setMethod d m"
  by (simp add: setMethod_def makeInternal_def)

text \<open>
  C10. The empty descriptor has the method GET, the empty url, no parameters, no hash, no
  headers and the Empty body. A constructor \<^verbatim>\<open>make(M)(u, o)\<close> is \<^verbatim>\<open>modify\<close> of the empty
  descriptor with the options \<open>o\<close> extended by the method and the url, and \<^verbatim>\<open>get\<close>,
  \<^verbatim>\<open>post\<close>, \<^verbatim>\<open>put\<close>, \<^verbatim>\<open>patch\<close>, \<^verbatim>\<open>del\<close>, \<^verbatim>\<open>head\<close>, \<^verbatim>\<open>options\<close> are \<^verbatim>\<open>make\<close> at their method.
  The result has the method \<open>M\<close> and the body of the options, or the Empty body when the
  options give none; constructed from a url string without options, every other field has
  the default of the empty descriptor.
\<close>

theorem make_defaults:
  "method empty = GET \<and> url empty = [] \<and> urlParams empty = [] \<and> hash empty = None
   \<and> headers empty = Map.empty \<and> body empty = Empty
   \<and> make M u opts =
       modify empty
         \<lparr>o_method = Some M, o_url = Some u,
          o_headers = (case opts of None \<Rightarrow> None | Some n \<Rightarrow> n_headers n),
          o_urlParams = (case opts of None \<Rightarrow> None | Some n \<Rightarrow> n_urlParams n),
          o_hash = (case opts of None \<Rightarrow> None | Some n \<Rightarrow> n_hash n),
          o_body = (case opts of None \<Rightarrow> None | Some n \<Rightarrow> n_body n),
          o_accept = (case opts of None \<Rightarrow> None | Some n \<Rightarrow> n_accept n),
          o_acceptJson = (case opts of None \<Rightarrow> None | Some n \<Rightarrow> n_acceptJson n)\<rparr>
   \<and> get = make GET \<and> post = make POST \<and> put = make PUT \<and> patch = make PATCH
   \<and> del = make DELETE \<and> head = make HEAD \<and> options = make OPTIONS
   \<and> method (make M u opts) = M
   \<and> body (make M u opts) =
       (case opts of None \<Rightarrow> Empty
        | Some n \<Rightarrow> (case n_body n of None \<Rightarrow> Empty | Some b \<Rightarrow> b))
   \<and> make M (UrlString s) None =
       \<lparr>method = M, url = s, urlParams = [], hash = None, headers = Map.empty, body = Empty\<rparr>"
proof -
  have e: "method empty = GET \<and> url empty = [] \<and> urlParams empty = [] \<and> hash empty = None
      \<and> headers empty = Map.empty \<and> body empty = Empty"
    by (simp add: empty_def makeInternal_def UrlParams_empty_def Headers_empty_def
        internalBody_empty_def)
  have m: "make M u opts =
       modify empty
         \<lparr>o_method = Some M, o_url = Some u,
          o_headers = (case opts of None \<Rightarrow> None | Some n \<Rightarrow> n_headers n),
          o_urlParams = (case opts of None \<Rightarrow> None | Some n \<Rightarrow> n_urlParams n),
          o_hash = (case opts of None \<Rightarrow> None | Some n \<Rightarrow> n_hash n),
          o_body = (case opts of None \<Rightarrow> None | Some n \<Rightarrow> n_body n),
          o_accept = (case opts of None \<Rightarrow> None | Some n \<Rightarrow> n_accept n),
          o_acceptJson = (case opts of None \<Rightarrow> None | Some n \<Rightarrow> n_acceptJson n)\<rparr>"
    by (cases opts) (simp_all add: make_def spread_def)
  have c: "get = make GET \<and> post = make POST \<and> put = make PUT \<and> patch = make PATCH
      \<and> del = make DELETE \<and> head = make HEAD \<and> options = make OPTIONS"
    by (simp add: get_def post_def put_def patch_def del_def head_def options_def)
  have mm: "method (make M u opts) = M"
    by (cases opts) (simp_all add: make_def spread_def modify_method)
  have bb: "body (make M u opts) =
       (case opts of None \<Rightarrow> Empty
        | Some n \<Rightarrow> (case n_body n of None \<Rightarrow> Empty | Some b \<Rightarrow> b))"
    by (cases opts)
      (simp_all add: make_def spread_def modify_body empty_def makeInternal_def
        internalBody_empty_def split: option.splits)
  have d: "make M (UrlString s) None =
       \<lparr>method = M, url = s, urlParams = [], hash = None, headers = Map.empty, body = Empty\<rparr>"
    by (cases s) (simp_all add: make_def spread_def modify_def Let_def setMethod_def setUrl_def
        makeInternal_def truthy_def empty_def UrlParams_empty_def Headers_empty_def
        internalBody_empty_def)
  from e m c mm bb d show ?thesis by blast
qed

end
